theory Spec2Isabelle
  imports Main
begin

section \<open>Python string operations used by the services\<close>

text \<open>
  A Python \<open>str\<close> is modelled as a \<open>string\<close> (a list of characters); \<open>len\<close> is
  \<open>length\<close>.  Every character outside the ASCII letters, digits, dot and underscore is
  treated alike by the code below, so the characters of the model stand for any code point.
\<close>

text \<open>\<open>s.replace(a, b)\<close> for single characters \<open>a\<close> and \<open>b\<close>.\<close>

definition replace_char :: "char \<Rightarrow> char \<Rightarrow> string \<Rightarrow> string" where
  "replace_char a b s = map (\<lambda>c. if c = a then b else c) s"

text \<open>
  \<open>s.rsplit(c, 1)\<close> for a separator \<open>c\<close> that occurs in \<open>s\<close>: the part before the last
  occurrence and the part after it.  The source calls it only under the guard \<open>c in s\<close>.
\<close>

definition rsplit1 :: "char \<Rightarrow> string \<Rightarrow> string \<times> string" where
  "rsplit1 c s =
     (let r = rev s; after = takeWhile (\<lambda>x. x \<noteq> c) r
      in (rev (drop (Suc (length after)) r), rev after))"

text \<open>\<open>s.split(c)\<close>: the parts of \<open>s\<close> between the occurrences of \<open>c\<close>, never an empty list.\<close>

fun split_char :: "char \<Rightarrow> string \<Rightarrow> string list" where
  "split_char c [] = [[]]"
| "split_char c (x # xs) =
     (if x = c then [] # split_char c xs
      else (case split_char c xs of p # ps \<Rightarrow> (x # p) # ps | [] \<Rightarrow> [[x]]))"

text \<open>\<open>s.strip(c)\<close>: remove the leading and the trailing run of \<open>c\<close>.\<close>

definition strip_char :: "char \<Rightarrow> string \<Rightarrow> string" where
  "strip_char c s = rev (dropWhile (\<lambda>x. x = c) (rev (dropWhile (\<lambda>x. x = c) s)))"

text \<open>
  The slice \<open>s[:n]\<close> for a Python integer \<open>n\<close>: a negative bound counts from the end
  of the string.
\<close>

definition slice_to :: "int \<Rightarrow> string \<Rightarrow> string" where
  "slice_to n s = (if 0 \<le> n then take (nat n) s else take (nat (int (length s) + n)) s)"

section \<open>BlobService: names\<close>

text \<open>The character class \<open>[a-zA-Z0-9._]\<close> of \<open>_normalize_blob_name\<close>.\<close>

definition allowed_char :: "char \<Rightarrow> bool" where
  "allowed_char c \<longleftrightarrow>
     c \<in> set (''abcdefghijklmnopqrstuvwxyz'' @ ''ABCDEFGHIJKLMNOPQRSTUVWXYZ'' @
              ''0123456789'' @ ''._'')"

text \<open>\<open>re.sub(r'[^a-zA-Z0-9._]', '_', s)\<close>.\<close>

definition sub_disallowed :: "string \<Rightarrow> string" where
  "sub_disallowed s = map (\<lambda>c. if allowed_char c then c else CHR ''_'') s"

text \<open>\<open>re.sub(r'_+', '_', s)\<close>: every maximal run of underscores becomes one underscore.\<close>

fun collapse_underscores :: "string \<Rightarrow> string" where
  "collapse_underscores [] = []"
| "collapse_underscores [c] = [c]"
| "collapse_underscores (c # d # cs) =
     (if c = CHR ''_'' \<and> d = CHR ''_'' then collapse_underscores (d # cs)
      else c # collapse_underscores (d # cs))"

text \<open>\<open>BlobService._normalize_blob_name\<close>, with \<open>max_length = 200\<close>.\<close>

definition max_length :: nat where
  "max_length = 200"

definition normalize_blob_name :: "string \<Rightarrow> string" where
  "normalize_blob_name file_name =
     (let normalized = replace_char CHR ''-'' CHR ''_'' (replace_char CHR '' '' CHR ''_'' file_name);
          normalized = sub_disallowed normalized;
          normalized = collapse_underscores normalized;
          normalized = strip_char CHR ''_'' normalized
      in if length normalized > max_length then
           (if CHR ''.'' \<in> set normalized then
              (let (name_part, ext) = rsplit1 CHR ''.'' normalized;
                   max_name_length = int max_length - int (length ext) - 1
               in slice_to max_name_length name_part @ ''.'' @ ext)
            else slice_to (int max_length) normalized)
         else normalized)"

text \<open>
  The output name computed in \<open>prepare_translation_urls\<close>, in \<open>prepare_blobs\<close> and in
  \<open>GraphService.save_to_onedrive\<close> (the same two statements in all three):
  \<^verbatim>\<open>file_base, file_ext = name.rsplit(".", 1) if "." in name else (name, "")\<close> and
  \<^verbatim>\<open>f"{file_base}-{lang}.{file_ext}" if file_ext else f"{file_base}-{lang}"\<close>.
\<close>

definition split_ext :: "string \<Rightarrow> string \<times> string" where
  "split_ext name = (if CHR ''.'' \<in> set name then rsplit1 CHR ''.'' name else (name, []))"

definition output_blob_name :: "string \<Rightarrow> string \<Rightarrow> string" where
  "output_blob_name name target_language =
     (let (file_base, file_ext) = split_ext name
      in if file_ext \<noteq> [] then file_base @ ''-'' @ target_language @ ''.'' @ file_ext
         else file_base @ ''-'' @ target_language)"

text \<open>
  The names chosen by \<open>prepare_blobs\<close>: the input blob is the normalized file name, the
  output blob is derived from it.
\<close>

definition prepare_blobs_names :: "string \<Rightarrow> string \<Rightarrow> string \<times> string" where
  "prepare_blobs_names file_name target_language =
     (let normalized_file_name = normalize_blob_name file_name
      in (normalized_file_name, output_blob_name normalized_file_name target_language))"

section \<open>Recovery of a job from the output container (api_server.get_result)\<close>

text \<open>
  The reconstruction of \<open>(blob_name, target_language)\<close> from the name of a translated
  file, as written in the handler: the extension is split off at the last dot, the language
  at the last hyphen of what remains.
\<close>

definition reverse_map :: "string \<Rightarrow> string \<times> string" where
  "reverse_map file_name =
     (if CHR ''.'' \<in> set file_name then
        (let (name_part, extension) = rsplit1 CHR ''.'' file_name
         in if CHR ''-'' \<in> set name_part then
              (let original_name = fst (rsplit1 CHR ''-'' name_part);
                   target_language = snd (rsplit1 CHR ''-'' name_part)
               in (original_name @ ''.'' @ extension, target_language))
            else (file_name, ''unknown''))
      else
        (if CHR ''-'' \<in> set file_name then
           (fst (rsplit1 CHR ''-'' file_name), snd (rsplit1 CHR ''-'' file_name))
         else (file_name, ''unknown'')))"

section \<open>Collaborators outside the process\<close>

text \<open>
  Azure Storage, the translation provider and Microsoft Graph are outside the program.
  Each call to one of them is modelled by its reply, taken from a record of replies, and
  is written to a log of events, so that the order and the number of calls a handler
  makes can be stated.  An exception is a value; \<open>Inl e\<close> is a call that raised \<open>e\<close>.
  The service objects are taken as constructed: configuration of the process is not
  modelled.  A handler runs from its first statement to its response without another
  request touching the registry in between.
\<close>

type_synonym bytes = "nat list"

datatype exn =
    Raised string
  | KeyError string
  | IndexError
  | FileNotFoundError string string
  | DownloadError exn
  | GraphNotConfigured
  | NoAccessToken
  | OneDriveNetworkError string
  | OneDriveUploadError nat

datatype event =
    BlobExists string string
  | ListBlobs string
  | DeleteBlob string string
  | UploadBlob string string
  | SignUrl string string string
  | StartTranslation string string string
  | CheckStatus string
  | Download string
  | Sleep nat
  | TokenPost
  | FolderGet string
  | FolderCreate string
  | UploadPut string string

text \<open>
  An entry of a container listing.  Times are whole microseconds on the UTC time line,
  the resolution of a Python \<open>datetime\<close>; \<open>None\<close> is a blob without \<open>last_modified\<close>.
\<close>

record blob_item =
  item_name :: string
  item_size :: nat
  item_last_modified :: "int option"

record storage =
  account_name :: string
  now :: int
  exists_reply :: "string \<Rightarrow> string \<Rightarrow> exn + bool"
  list_reply :: "string \<Rightarrow> exn + blob_item list"
  delete_reply :: "string \<Rightarrow> string \<Rightarrow> exn option"
  put_reply :: "string \<Rightarrow> string \<Rightarrow> exn option"
  sas_reply :: "string \<Rightarrow> string \<Rightarrow> string \<Rightarrow> exn + string"
  blob_reply :: "nat \<Rightarrow> string \<Rightarrow> string \<Rightarrow> exn + bytes option"

text \<open>
  \<open>blob_reply st n container blob\<close> is the blob \<open>blob\<close> of \<open>container\<close> as the \<open>n\<close>-th
  download (from 0) of a request finds it: \<open>Inr (Some content)\<close> when \<open>exists()\<close> is true
  and \<open>download_blob().readall()\<close> returns \<open>content\<close>, \<open>Inr None\<close> when \<open>exists()\<close> is
  false, \<open>Inl e\<close> when one of the calls raises \<open>e\<close>.  The provider writes the target
  blob on its own schedule, so two downloads may differ.
\<close>

text \<open>
  The translation provider is reached through \<open>TranslationService\<close>, imported from
  \<open>src.services.translation_service\<close>; its two methods are parameters: the reply to
  \<open>start_translation\<close>, and the \<open>status["status"]\<close> that the \<open>n\<close>-th call (from 0)
  of \<open>check_translation_status\<close> within a request returns.
\<close>

record provider =
  start_reply :: "string \<Rightarrow> string \<Rightarrow> string \<Rightarrow> exn + string"
  status_reply :: "nat \<Rightarrow> string \<Rightarrow> exn + string"

datatype token_reply = TokenRaises string | TokenResponse nat "string option"

datatype http_reply = HttpRaises string | HttpStatus nat

datatype upload_reply =
    UploadRequestException string
  | UploadRaises string
  | UploadResponse nat "string option"

text \<open>
  Microsoft Graph and the identity endpoint.  \<open>token_reply g n\<close> answers the \<open>n\<close>-th
  client-credentials exchange (from 0) of a log; a \<open>TokenResponse\<close> carries the status
  code and the \<open>access_token\<close> entry of the body, an \<open>UploadResponse\<close> the status code
  and the \<open>webUrl\<close> entry.
\<close>

record graph_backend =
  token_reply :: "nat \<Rightarrow> token_reply"
  folder_get_reply :: "string \<Rightarrow> http_reply"
  folder_create_reply :: "string \<Rightarrow> http_reply"
  upload_reply :: "string \<Rightarrow> string \<Rightarrow> upload_reply"

section \<open>GraphService\<close>

text \<open>
  The fields of a \<open>GraphService\<close> that its methods read or write: \<open>enabled\<close>,
  \<open>onedrive_folder\<close> and the token slot \<open>_access_token\<close>, \<open>None\<close> in a new object.
\<close>

record graph_service =
  enabled :: bool
  onedrive_folder :: string
  access_token :: "string option"

text \<open>
  The methods run on a service object and a log of the calls made so far; the number of
  exchanges the identity endpoint has received is the number of \<open>TokenPost\<close> events in
  the log.
\<close>

type_synonym graph_state = "graph_service \<times> event list"

text \<open>
  \<open>GraphService._get_access_token\<close>: post the client credentials; on status 200 with a
  non-empty \<open>access_token\<close> store the token in the slot and return it; return \<open>None\<close>
  in every other case.
\<close>

definition get_access_token :: "graph_backend \<Rightarrow> graph_state \<Rightarrow> string option \<times> graph_state" where
  "get_access_token g s =
     (let (gs, log) = s;
          reply = token_reply g (count_list log TokenPost);
          log = log @ [TokenPost]
      in case reply of
           TokenRaises e \<Rightarrow> (None, (gs, log))
         | TokenResponse status_code tok \<Rightarrow>
             if status_code \<noteq> 200 then (None, (gs, log))
             else (case tok of
                     None \<Rightarrow> (None, (gs, log))
                   | Some t \<Rightarrow>
                       if t \<noteq> [] then (Some t, (gs\<lparr>access_token := Some t\<rparr>, log))
                       else (None, (gs, log))))"

text \<open>
  \<open>GraphService.create_documents_folder\<close>: look the folder up, create it when the
  lookup does not answer 200; every exception ends in \<open>False\<close>.
\<close>

definition create_documents_folder :: "graph_backend \<Rightarrow> string \<Rightarrow> graph_state \<Rightarrow> bool \<times> graph_state" where
  "create_documents_folder g user_id s =
     (if \<not> enabled (fst s) then (False, s)
      else
        (let (tok, (gs, log)) = get_access_token g s
         in case tok of
              None \<Rightarrow> (False, (gs, log))
            | Some t \<Rightarrow>
                (let log = log @ [FolderGet user_id]
                 in case folder_get_reply g user_id of
                      HttpRaises e \<Rightarrow> (False, (gs, log))
                    | HttpStatus c \<Rightarrow>
                        if c = 200 then (True, (gs, log))
                        else
                          (let log = log @ [FolderCreate user_id]
                           in case folder_create_reply g user_id of
                                HttpRaises e \<Rightarrow> (False, (gs, log))
                              | HttpStatus c' \<Rightarrow> (c' = 200 \<or> c' = 201, (gs, log))))))"

text \<open>
  \<open>GraphService.save_to_onedrive\<close>: the URL of the uploaded file, or the exception
  that leaves the method.  The result of \<open>create_documents_folder\<close> is not looked at.
\<close>

definition save_to_onedrive ::
  "graph_backend \<Rightarrow> string \<Rightarrow> bytes \<Rightarrow> string \<Rightarrow> string \<Rightarrow> graph_state \<Rightarrow> (exn + string) \<times> graph_state" where
  "save_to_onedrive g user_id file_content file_name target_language s =
     (if \<not> enabled (fst s) then (Inl GraphNotConfigured, s)
      else
        (let (tok, s1) = get_access_token g s
         in case tok of
              None \<Rightarrow> (Inl NoAccessToken, s1)
            | Some t \<Rightarrow>
                (let onedrive_file_name = output_blob_name file_name target_language;
                     (folder_ok, (gs, log)) = create_documents_folder g user_id s1;
                     log = log @ [UploadPut user_id onedrive_file_name]
                 in case upload_reply g user_id onedrive_file_name of
                      UploadRequestException e \<Rightarrow> (Inl (OneDriveNetworkError e), (gs, log))
                    | UploadRaises e \<Rightarrow> (Inl (Raised e), (gs, log))
                    | UploadResponse c web_url \<Rightarrow>
                        if c \<noteq> 200 \<and> c \<noteq> 201 then (Inl (OneDriveUploadError c), (gs, log))
                        else (Inr (case web_url of None \<Rightarrow> ''URL non disponible'' | Some u \<Rightarrow> u),
                              (gs, log)))))"

section \<open>BlobService: calls to the storage account\<close>

definition input_container :: string where
  "input_container = ''doc-to-trad''"

definition output_container :: string where
  "output_container = ''doc-trad''"

definition hour :: int where
  "hour = 3600000000"

text \<open>
  \<open>BlobService.check_blob_exists\<close>: the answer of the storage account, and \<open>False\<close>
  when the call raises.  The result is a sum, so that "does not raise" is a statement
  about the function and not about its type.
\<close>

definition check_blob_exists :: "storage \<Rightarrow> string \<Rightarrow> string \<Rightarrow> (exn + bool) \<times> event list" where
  "check_blob_exists st container blob =
     (case exists_reply st container blob of
        Inr b \<Rightarrow> (Inr b, [BlobExists container blob])
      | Inl e \<Rightarrow> (Inr False, [BlobExists container blob]))"

text \<open>
  \<open>BlobService.download_translated_file\<close>, as the \<open>n\<close>-th download of a request.  The
  container is \<open>url_parts[-2]\<close> and the blob the text of \<open>url_parts[-1]\<close> before its first
  question mark, where \<open>url_parts = target_url.split('/')\<close>; a URL without a slash has
  no \<open>url_parts[-2]\<close>.  A blob that does not exist is a \<open>FileNotFoundError\<close>, and every
  exception leaves the method wrapped in a new one.
\<close>

definition download_translated_file :: "storage \<Rightarrow> nat \<Rightarrow> string \<Rightarrow> exn + bytes" where
  "download_translated_file st n target_url =
     (case rev (split_char CHR ''/'' target_url) of
        blob_name_with_sas # container_name # rest \<Rightarrow>
          (case split_char CHR ''?'' blob_name_with_sas of
             blob_name # sas \<Rightarrow>
               (case blob_reply st n container_name blob_name of
                  Inl e \<Rightarrow> Inl (DownloadError e)
                | Inr None \<Rightarrow> Inl (DownloadError (FileNotFoundError blob_name container_name))
                | Inr (Some content) \<Rightarrow> Inr content)
           | [] \<Rightarrow> Inl (DownloadError IndexError))
      | _ \<Rightarrow> Inl (DownloadError IndexError))"

text \<open>
  \<open>BlobService._delete_old_files\<close>: delete the blobs last modified before the cutoff;
  the first exception (a failed listing, a blob without time, a failed deletion) ends the
  sweep and is swallowed.
\<close>

fun delete_old_loop :: "storage \<Rightarrow> string \<Rightarrow> int \<Rightarrow> blob_item list \<Rightarrow> event list" where
  "delete_old_loop st container cutoff_time [] = []"
| "delete_old_loop st container cutoff_time (b # bs) =
     (case item_last_modified b of
        None \<Rightarrow> []
      | Some t \<Rightarrow>
          if t < cutoff_time then
            DeleteBlob container (item_name b) #
              (case delete_reply st container (item_name b) of
                 Some e \<Rightarrow> []
               | None \<Rightarrow> delete_old_loop st container cutoff_time bs)
          else delete_old_loop st container cutoff_time bs)"

definition delete_old_files :: "storage \<Rightarrow> string \<Rightarrow> nat \<Rightarrow> event list" where
  "delete_old_files st container max_age_hours =
     ListBlobs container #
       (case list_reply st container of
          Inl e \<Rightarrow> []
        | Inr blob_list \<Rightarrow>
            delete_old_loop st container (now st - int max_age_hours * hour) blob_list)"

text \<open>\<open>BlobService._check_and_delete_target_blob\<close>; exceptions are swallowed.\<close>

definition check_and_delete_target_blob :: "storage \<Rightarrow> string \<Rightarrow> string \<Rightarrow> event list" where
  "check_and_delete_target_blob st container blob =
     BlobExists container blob #
       (case exists_reply st container blob of
          Inr True \<Rightarrow> [DeleteBlob container blob]
        | _ \<Rightarrow> [])"

record blob_urls =
  source_url :: string
  target_url :: string
  input_blob_name :: string
  output_name :: string

text \<open>
  \<open>BlobService.prepare_translation_urls\<close>: the output name, the sweep of the output
  container, the removal of an old target, and the two signed URLs (signing may raise).
\<close>

definition prepare_translation_urls ::
  "storage \<Rightarrow> string \<Rightarrow> string \<Rightarrow> (exn + blob_urls) \<times> event list" where
  "prepare_translation_urls st input_name lang =
     (let out = output_blob_name input_name lang;
          ev = delete_old_files st output_container 1 @
               check_and_delete_target_blob st output_container out @
               [SignUrl input_container input_name ''r'']
      in case sas_reply st input_container input_name ''r'' of
           Inl e \<Rightarrow> (Inl e, ev)
         | Inr src \<Rightarrow>
             (case sas_reply st output_container out ''rw'' of
                Inl e \<Rightarrow> (Inl e, ev @ [SignUrl output_container out ''rw''])
              | Inr tgt \<Rightarrow>
                  (Inr \<lparr>source_url = src, target_url = tgt, input_blob_name = input_name,
                        output_name = out\<rparr>,
                   ev @ [SignUrl output_container out ''rw''])))"

text \<open>
  \<open>BlobService.prepare_blobs\<close>, used by the tool call \<open>translate_document\<close> of the
  \<open>/mcp\<close> endpoint: the names are those of \<open>prepare_blobs_names\<close>; the content, decoded
  from base64 (\<open>decoded\<close> is the outcome of \<open>base64.b64decode\<close>), is uploaded as the
  input blob before the URLs are signed.  Every exception is raised again.
\<close>

definition prepare_blobs ::
  "storage \<Rightarrow> (exn + bytes) \<Rightarrow> string \<Rightarrow> string \<Rightarrow> (exn + blob_urls) \<times> event list" where
  "prepare_blobs st decoded file_name lang =
     (let (input_name, out) = prepare_blobs_names file_name lang;
          ev = delete_old_files st output_container 1 @
               check_and_delete_target_blob st output_container out
      in case decoded of
           Inl e \<Rightarrow> (Inl e, ev)
         | Inr file_content_binary \<Rightarrow>
             (let ev = ev @ [UploadBlob input_container input_name]
              in case put_reply st input_container input_name of
                   Some e \<Rightarrow> (Inl e, ev)
                 | None \<Rightarrow>
                     (let ev = ev @ [SignUrl input_container input_name ''r'']
                      in case sas_reply st input_container input_name ''r'' of
                           Inl e \<Rightarrow> (Inl e, ev)
                         | Inr src \<Rightarrow>
                             (case sas_reply st output_container out ''rw'' of
                                Inl e \<Rightarrow> (Inl e, ev @ [SignUrl output_container out ''rw''])
                              | Inr tgt \<Rightarrow>
                                  (Inr \<lparr>source_url = src, target_url = tgt,
                                        input_blob_name = input_name, output_name = out\<rparr>,
                                   ev @ [SignUrl output_container out ''rw''])))))"

section \<open>The job registry and the REST handlers (api_server.py)\<close>

text \<open>
  An entry of \<open>active_translations\<close>, a dictionary.  The entries built by the
  submission handlers and by the recovery in \<open>get_result\<close> have the key \<open>blob_name\<close>
  and no key \<open>file_name\<close>; the entries built by the tool call \<open>translate_document\<close>
  of the \<open>/mcp\<close> endpoint of api_server.py have \<open>file_name\<close> and no \<open>blob_name\<close>.
  Both keys are therefore optional.  All builders set \<open>target_language\<close>, \<open>user_id\<close>
  and \<open>blob_urls["target_url"]\<close>; the other keys are not read by the handlers below.
\<close>

record translation_info =
  ti_blob_name :: "string option"
  ti_file_name :: "string option"
  ti_target_language :: string
  ti_user_id :: string
  ti_target_url :: string

text \<open>
  \<^verbatim>\<open>translation_info.get("blob_name", translation_info.get("file_name", "Inconnu"))\<close>
\<close>

definition file_name_of :: "translation_info \<Rightarrow> string" where
  "file_name_of info =
     (case ti_blob_name info of
        Some blob \<Rightarrow> blob
      | None \<Rightarrow> (case ti_file_name info of Some file \<Rightarrow> file | None \<Rightarrow> ''Inconnu''))"

type_synonym registry = "string \<rightharpoonup> translation_info"

datatype handoff_error = OneDriveNotConfigured | OneDriveFailed exn

record result_data =
  r_translation_id :: string
  r_file_name :: string
  r_target_language :: string
  r_file_size :: nat
  r_onedrive_url :: "string option"
  r_saved_to_onedrive :: bool
  r_onedrive_error :: "handoff_error option"

datatype api_error =
    MissingParameter string
  | SourceNotFound string string
  | TranslationError exn
  | NoRecentFile string
  | SearchError string exn
  | NotReady nat string
  | DownloadFailed exn
  | RetrievalError exn

text \<open>
  A JSON response: \<open>Failure code e\<close> is \<open>{"success": False, "error": ...}\<close> with
  HTTP status \<open>code\<close>; \<open>Started\<close> and \<open>Result\<close> are the two bodies with
  \<open>"success": True\<close>.  A \<open>Result\<close> reports the size of the translated file, not its
  content.
\<close>

datatype response =
    Failure nat api_error
  | Started string string string
  | Result result_data

text \<open>\<open>translate_document\<close>, on the parsed JSON body \<open>data\<close>.\<close>

definition translate_document ::
  "storage \<Rightarrow> provider \<Rightarrow> registry \<Rightarrow> (string \<rightharpoonup> string) \<Rightarrow> response \<times> registry \<times> event list" where
  "translate_document st p active_translations data =
     (case data ''blob_name'' of
        None \<Rightarrow> (Failure 400 (MissingParameter ''blob_name''), active_translations, [])
      | Some blob \<Rightarrow>
     (case data ''target_language'' of
        None \<Rightarrow> (Failure 400 (MissingParameter ''target_language''), active_translations, [])
      | Some lang \<Rightarrow>
     (case data ''user_id'' of
        None \<Rightarrow> (Failure 400 (MissingParameter ''user_id''), active_translations, [])
      | Some user \<Rightarrow>
     (case check_blob_exists st input_container blob of
        (Inl e, ev1) \<Rightarrow> (Failure 500 (TranslationError e), active_translations, ev1)
      | (Inr blob_exists, ev1) \<Rightarrow>
          if \<not> blob_exists then
            (Failure 404 (SourceNotFound blob input_container), active_translations, ev1)
          else
            (case prepare_translation_urls st blob lang of
               (Inl e, ev2) \<Rightarrow> (Failure 500 (TranslationError e), active_translations, ev1 @ ev2)
             | (Inr urls, ev2) \<Rightarrow>
                 (let ev3 = ev1 @ ev2 @ [StartTranslation (source_url urls) (target_url urls) lang]
                  in case start_reply p (source_url urls) (target_url urls) lang of
                       Inl e \<Rightarrow> (Failure 500 (TranslationError e), active_translations, ev3)
                     | Inr translation_id \<Rightarrow>
                         (Started translation_id blob lang,
                          active_translations(translation_id \<mapsto>
                            \<lparr>ti_blob_name = Some blob, ti_file_name = None, ti_target_language = lang,
                             ti_user_id = user, ti_target_url = target_url urls\<rparr>),
                          ev3)))))))"

text \<open>
  The tool call \<open>translate_document\<close> of the \<open>/mcp\<close> endpoint (\<open>mcp_endpoint\<close>): the
  file arrives in the request, is staged by \<open>prepare_blobs\<close> and submitted; the entry
  is written under the key \<open>file_name\<close>.  The arguments are read where the source reads
  them, \<open>user_id\<close> after the submission.  \<open>b64decode\<close> stands for \<open>base64.b64decode\<close>.
\<close>

datatype rpc_reply = RpcStarted string string string | RpcError exn

definition mcp_endpoint_translate_document ::
  "storage \<Rightarrow> provider \<Rightarrow> (string \<Rightarrow> exn + bytes) \<Rightarrow> registry \<Rightarrow> (string \<rightharpoonup> string)
     \<Rightarrow> rpc_reply \<times> registry \<times> event list" where
  "mcp_endpoint_translate_document st p b64decode active_translations tool_arguments =
     (case tool_arguments ''file_content'' of
        None \<Rightarrow> (RpcError (KeyError ''file_content''), active_translations, [])
      | Some file_content \<Rightarrow>
     (case tool_arguments ''file_name'' of
        None \<Rightarrow> (RpcError (KeyError ''file_name''), active_translations, [])
      | Some file \<Rightarrow>
     (case tool_arguments ''target_language'' of
        None \<Rightarrow> (RpcError (KeyError ''target_language''), active_translations, [])
      | Some lang \<Rightarrow>
     (case prepare_blobs st (b64decode file_content) file lang of
        (Inl e, ev1) \<Rightarrow> (RpcError e, active_translations, ev1)
      | (Inr urls, ev1) \<Rightarrow>
          (let ev2 = ev1 @ [StartTranslation (source_url urls) (target_url urls) lang]
           in case start_reply p (source_url urls) (target_url urls) lang of
                Inl e \<Rightarrow> (RpcError e, active_translations, ev2)
              | Inr translation_id \<Rightarrow>
                  (case tool_arguments ''user_id'' of
                     None \<Rightarrow> (RpcError (KeyError ''user_id''), active_translations, ev2)
                   | Some user \<Rightarrow>
                       (RpcStarted file lang translation_id,
                        active_translations(translation_id \<mapsto>
                          \<lparr>ti_blob_name = None, ti_file_name = Some file,
                           ti_target_language = lang, ti_user_id = user,
                           ti_target_url = target_url urls\<rparr>),
                        ev2)))))))"

text \<open>
  \<open>get_result\<close>, first part: the entry of the registry or, when there is none, the
  search of the output container for the file modified last within the past two hours,
  from whose name an entry is made up.  A timedelta is a whole number of microseconds,
  so \<open>total_seconds() < 7200\<close> is a comparison of integers.
\<close>

record recent_file =
  rf_name :: string
  rf_size :: nat
  rf_last_modified :: int
  rf_url :: string

definition recent_files :: "storage \<Rightarrow> blob_item list \<Rightarrow> recent_file list" where
  "recent_files st blobs =
     concat (map (\<lambda>b. case item_last_modified b of
                         None \<Rightarrow> []
                       | Some t \<Rightarrow>
                           if now st - t < 2 * hour then
                             [\<lparr>rf_name = item_name b, rf_size = item_size b, rf_last_modified = t,
                               rf_url = ''https://'' @ account_name st @ ''.blob.core.windows.net/'' @
                                        output_container @ ''/'' @ item_name b\<rparr>]
                           else []) blobs)"

text \<open>\<open>max(recent_files, key=...)\<close>: the first file with the largest modification time.\<close>

fun max_last_modified :: "recent_file \<Rightarrow> recent_file list \<Rightarrow> recent_file" where
  "max_last_modified best [] = best"
| "max_last_modified best (f # fs) =
     max_last_modified (if rf_last_modified best < rf_last_modified f then f else best) fs"

definition lookup_translation ::
  "storage \<Rightarrow> registry \<Rightarrow> string \<Rightarrow> (response + translation_info) \<times> event list" where
  "lookup_translation st active_translations translation_id =
     (case active_translations translation_id of
        Some info \<Rightarrow> (Inr info, [])
      | None \<Rightarrow>
          (case list_reply st output_container of
             Inl search_error \<Rightarrow>
               (Inl (Failure 404 (SearchError translation_id search_error)),
                [ListBlobs output_container])
           | Inr blobs \<Rightarrow>
               (case recent_files st blobs of
                  [] \<Rightarrow> (Inl (Failure 404 (NoRecentFile translation_id)), [ListBlobs output_container])
                | f # fs \<Rightarrow>
                    (let recent = max_last_modified f fs;
                         (blob, lang) = reverse_map (rf_name recent)
                     in (Inr \<lparr>ti_blob_name = Some blob, ti_file_name = None,
                               ti_target_language = lang, ti_user_id = ''unknown'',
                               ti_target_url = rf_url recent\<rparr>,
                         [ListBlobs output_container])))))"

text \<open>
  The loop \<open>for retry in range(max_retries)\<close> of \<open>get_result\<close>: \<open>GoDownload\<close> is the
  \<open>break\<close> (and the end of the range), \<open>NotFinished\<close> the \<open>return\<close> of the last
  round, \<open>StatusRaised\<close> an exception of the status call.
\<close>

datatype poll_result = GoDownload | NotFinished string | StatusRaised exn

function poll_status :: "provider \<Rightarrow> string \<Rightarrow> nat \<Rightarrow> nat \<Rightarrow> poll_result \<times> event list" where
  "poll_status p translation_id max_retries retry =
     (if retry < max_retries then
        (case status_reply p retry translation_id of
           Inl e \<Rightarrow> (StatusRaised e, [CheckStatus translation_id])
         | Inr status \<Rightarrow>
             if status = ''Succeeded'' then (GoDownload, [CheckStatus translation_id])
             else if retry < max_retries - 1 then
               (let (r, ev) = poll_status p translation_id max_retries (Suc retry)
                in (r, CheckStatus translation_id # Sleep 5 # ev))
             else (NotFinished status, [CheckStatus translation_id]))
      else (GoDownload, []))"
  by pat_completeness auto
termination
  by (relation "measure (\<lambda>(p, translation_id, max_retries, retry). max_retries - retry)") auto

declare poll_status.simps [simp del]

text \<open>
  \<open>get_result\<close>, second part: the direct download and, when it raises, the status
  checks followed by one more download.
\<close>

definition fetch_translated ::
  "storage \<Rightarrow> provider \<Rightarrow> string \<Rightarrow> translation_info \<Rightarrow> (response + bytes) \<times> event list" where
  "fetch_translated st p translation_id info =
     (case download_translated_file st 0 (ti_target_url info) of
        Inr translated_content \<Rightarrow> (Inr translated_content, [Download (ti_target_url info)])
      | Inl download_error \<Rightarrow>
          (case poll_status p translation_id 3 0 of
             (StatusRaised e, ev) \<Rightarrow>
               (Inl (Failure 500 (RetrievalError e)), Download (ti_target_url info) # ev)
           | (NotFinished status, ev) \<Rightarrow>
               (Inl (Failure 400 (NotReady 3 status)), Download (ti_target_url info) # ev)
           | (GoDownload, ev) \<Rightarrow>
               (case download_translated_file st 1 (ti_target_url info) of
                  Inr translated_content \<Rightarrow>
                    (Inr translated_content,
                     Download (ti_target_url info) # ev @ [Download (ti_target_url info)])
                | Inl final_error \<Rightarrow>
                    (Inl (Failure 500 (DownloadFailed final_error)),
                     Download (ti_target_url info) # ev @ [Download (ti_target_url info)]))))"

text \<open>
  \<open>get_result\<close>, third part: the import into OneDrive, made when the service is
  configured; its failure is written into the response.
\<close>

definition onedrive_import ::
  "graph_backend \<Rightarrow> graph_service \<Rightarrow> string \<Rightarrow> translation_info \<Rightarrow> bytes \<Rightarrow> result_data \<times> event list" where
  "onedrive_import g gs translation_id info translated_content =
     (let response_data =
            \<lparr>r_translation_id = translation_id, r_file_name = file_name_of info,
             r_target_language = ti_target_language info,
             r_file_size = length translated_content,
             r_onedrive_url = None, r_saved_to_onedrive = False, r_onedrive_error = None\<rparr>
      in if enabled gs then
           (case save_to_onedrive g (ti_user_id info) translated_content (file_name_of info)
                   (ti_target_language info) (gs, []) of
              (Inr onedrive_url, (gs', log)) \<Rightarrow>
                (response_data\<lparr>r_onedrive_url := Some onedrive_url, r_saved_to_onedrive := True\<rparr>,
                 log)
            | (Inl e, (gs', log)) \<Rightarrow>
                (response_data\<lparr>r_onedrive_error := Some (OneDriveFailed e),
                               r_saved_to_onedrive := False\<rparr>, log))
         else
           (response_data\<lparr>r_saved_to_onedrive := False,
                          r_onedrive_error := Some OneDriveNotConfigured\<rparr>, []))"

text \<open>
  \<open>get_result\<close>.  The query parameter \<open>save_to_onedrive\<close> is read and not used.  The
  last statement, \<open>del active_translations[translation_id]\<close>, raises \<open>KeyError\<close> when
  the registry has no such entry; the handler turns every exception into a response
  with status 500.
\<close>

definition get_result ::
  "storage \<Rightarrow> provider \<Rightarrow> graph_backend \<Rightarrow> graph_service \<Rightarrow> registry \<Rightarrow> string \<Rightarrow> bool
     \<Rightarrow> response \<times> registry \<times> event list" where
  "get_result st p g gs active_translations translation_id save_flag =
     (case lookup_translation st active_translations translation_id of
        (Inl resp, ev1) \<Rightarrow> (resp, active_translations, ev1)
      | (Inr info, ev1) \<Rightarrow>
          (case fetch_translated st p translation_id info of
             (Inl resp, ev2) \<Rightarrow> (resp, active_translations, ev1 @ ev2)
           | (Inr translated_content, ev2) \<Rightarrow>
               (let (response_data, ev3) = onedrive_import g gs translation_id info translated_content
                in if translation_id \<in> dom active_translations then
                     (Result response_data, active_translations(translation_id := None),
                      ev1 @ ev2 @ ev3)
                   else
                     (Failure 500 (RetrievalError (KeyError translation_id)), active_translations,
                      ev1 @ ev2 @ ev3))))"

section \<open>The MCP tool handlers (server.py)\<close>

text \<open>
  The server object keeps its registry and one \<open>GraphService\<close> for its lifetime.  A tool
  answers with a text; the texts are told apart by constructor.
\<close>

datatype handoff_note = Saved string | SaveFailed exn

record mcp_result =
  m_file_name :: string
  m_target_language :: string
  m_size :: nat
  m_onedrive :: "handoff_note option"

datatype mcp_reply =
    McpSourceNotFound string string
  | McpStarted string string string
  | McpStartError exn
  | McpUnknownTranslation string
  | McpNotFinished string
  | McpResult mcp_result
  | McpResultError exn

type_synonym mcp_server = "registry \<times> graph_service"

text \<open>\<open>TranslationMCPServer._handle_translate_document\<close>.\<close>

definition handle_translate_document ::
  "storage \<Rightarrow> provider \<Rightarrow> mcp_server \<Rightarrow> (string \<rightharpoonup> string) \<Rightarrow> mcp_reply \<times> mcp_server \<times> event list" where
  "handle_translate_document st p srv args =
     (case args ''blob_name'' of
        None \<Rightarrow> (McpStartError (KeyError ''blob_name''), srv, [])
      | Some blob \<Rightarrow>
     (case args ''target_language'' of
        None \<Rightarrow> (McpStartError (KeyError ''target_language''), srv, [])
      | Some lang \<Rightarrow>
     (case args ''user_id'' of
        None \<Rightarrow> (McpStartError (KeyError ''user_id''), srv, [])
      | Some user \<Rightarrow>
     (case check_blob_exists st input_container blob of
        (Inl e, ev1) \<Rightarrow> (McpStartError e, srv, ev1)
      | (Inr blob_exists, ev1) \<Rightarrow>
          if \<not> blob_exists then (McpSourceNotFound blob input_container, srv, ev1)
          else
            (case prepare_translation_urls st blob lang of
               (Inl e, ev2) \<Rightarrow> (McpStartError e, srv, ev1 @ ev2)
             | (Inr urls, ev2) \<Rightarrow>
                 (let ev3 = ev1 @ ev2 @ [StartTranslation (source_url urls) (target_url urls) lang]
                  in case start_reply p (source_url urls) (target_url urls) lang of
                       Inl e \<Rightarrow> (McpStartError e, srv, ev3)
                     | Inr translation_id \<Rightarrow>
                         (McpStarted blob lang translation_id,
                          ((fst srv)(translation_id \<mapsto>
                              \<lparr>ti_blob_name = Some blob, ti_file_name = None, ti_target_language = lang,
                               ti_user_id = user, ti_target_url = target_url urls\<rparr>),
                           snd srv),
                          ev3)))))))"


section \<open>Reading a response and a log of events\<close>

fun is_result :: "response \<Rightarrow> bool" where
  "is_result (Result response_data) = True"
| "is_result r = False"

fun is_status_check :: "event \<Rightarrow> bool" where
  "is_status_check (CheckStatus translation_id) = True"
| "is_status_check e = False"

fun is_download :: "event \<Rightarrow> bool" where
  "is_download (Download url) = True"
| "is_download e = False"

fun is_submission :: "event \<Rightarrow> bool" where
  "is_submission (StartTranslation src tgt lang) = True"
| "is_submission e = False"

fun is_graph_call :: "event \<Rightarrow> bool" where
  "is_graph_call TokenPost = True"
| "is_graph_call (FolderGet user) = True"
| "is_graph_call (FolderCreate user) = True"
| "is_graph_call (UploadPut user file) = True"
| "is_graph_call e = False"

fun sleep_seconds :: "event \<Rightarrow> nat" where
  "sleep_seconds (Sleep n) = n"
| "sleep_seconds e = 0"

definition total_sleep :: "event list \<Rightarrow> nat" where
  "total_sleep ev = sum_list (map sleep_seconds ev)"

section \<open>A sample deployment\<close>

text \<open>
  One registered job, an output container holding one file written an hour ago, a
  provider that still reports the job as running, and a OneDrive upload that is refused.
\<close>

definition sample_info :: translation_info where
  "sample_info =
     \<lparr>ti_blob_name = Some ''report.pdf'', ti_file_name = None, ti_target_language = ''es'',
      ti_user_id = ''user-1'',
      ti_target_url = ''https://acct.blob.core.windows.net/doc-trad/report-es.pdf?sig''\<rparr>"

definition sample_storage :: storage where
  "sample_storage =
     \<lparr>account_name = ''acct'', now = 10 * hour,
      exists_reply = (\<lambda>container blob. Inr False),
      list_reply = (\<lambda>container.
        Inr [\<lparr>item_name = ''report-es.pdf'', item_size = 3, item_last_modified = Some (9 * hour)\<rparr>]),
      delete_reply = (\<lambda>container blob. None),
      put_reply = (\<lambda>container blob. None),
      sas_reply = (\<lambda>container blob perms.
        Inr (''https://acct.blob.core.windows.net/'' @ container @ ''/'' @ blob @ ''?sig'')),
      blob_reply = (\<lambda>n container blob.
        if container = ''doc-trad'' \<and> blob = ''report-es.pdf'' then Inr (Some [80, 68, 70])
        else Inr None)\<rparr>"

definition sample_provider :: provider where
  "sample_provider =
     \<lparr>start_reply = (\<lambda>src tgt lang. Inr ''job1''),
      status_reply = (\<lambda>n translation_id. Inr ''InProgress'')\<rparr>"

definition sample_graph :: graph_backend where
  "sample_graph =
     \<lparr>token_reply = (\<lambda>n. TokenResponse 200 (Some ''token'')),
      folder_get_reply = (\<lambda>user. HttpStatus 200),
      folder_create_reply = (\<lambda>user. HttpStatus 201),
      upload_reply = (\<lambda>user file. UploadResponse 503 None)\<rparr>"

definition sample_service :: graph_service where
  "sample_service = \<lparr>enabled = True, onedrive_folder = ''Translations'', access_token = None\<rparr>"

text \<open>
  Variations: a storage account from which the target cannot be downloaded, one whose
  output container is empty, one whose existence check raises, and a provider that
  reports success at the second status check.
\<close>

definition unavailable_storage :: storage where
  "unavailable_storage = sample_storage\<lparr>blob_reply := (\<lambda>n container blob. Inr None)\<rparr>"


definition broken_storage :: storage where
  "broken_storage = sample_storage\<lparr>exists_reply := (\<lambda>container blob. Inl (Raised ''timeout''))\<rparr>"

definition late_provider :: provider where
  "late_provider =
     sample_provider\<lparr>status_reply :=
       (\<lambda>n translation_id. if n = 0 then Inr ''InProgress'' else Inr ''Succeeded'')\<rparr>"









definition sample_request :: "string \<rightharpoonup> string" where
  "sample_request =
     [''blob_name'' \<mapsto> ''report.pdf'', ''target_language'' \<mapsto> ''es'', ''user_id'' \<mapsto> ''user-1'']"

section \<open>Output names and their reversal\<close>

lemma takeWhile_until_sep: "c \<notin> set ys \<Longrightarrow> takeWhile (\<lambda>x. x \<noteq> c) (ys @ c # zs) = ys"
  by (induction ys) auto

lemma rsplit1_last_sep: "c \<notin> set t \<Longrightarrow> rsplit1 c (b @ c # t) = (b, t)"
proof -
  assume h: "c \<notin> set t"
  then have "c \<notin> set (rev t)" by simp
  then have tw: "takeWhile (\<lambda>x. x \<noteq> c) (rev t @ c # rev b) = rev t"
    by (rule takeWhile_until_sep)
  show ?thesis
    unfolding rsplit1_def Let_def by (simp add: tw)
qed

lemma rsplit1_decompose:
  assumes "c \<in> set s"
  shows "s = fst (rsplit1 c s) @ c # snd (rsplit1 c s) \<and> c \<notin> set (snd (rsplit1 c s))"
proof -
  from assms obtain ys zs where s: "s = ys @ c # zs" and n: "c \<notin> set zs"
    by (auto dest!: split_list_last)
  from n have "rsplit1 c (ys @ c # zs) = (ys, zs)" by (rule rsplit1_last_sep)
  with s n show ?thesis by simp
qed

lemma output_with_ext:
  "CHR ''.'' \<notin> set ext \<Longrightarrow> ext \<noteq> [] \<Longrightarrow>
     output_blob_name (base @ CHR ''.'' # ext) lang = base @ CHR ''-'' # lang @ CHR ''.'' # ext"
  by (simp add: output_blob_name_def split_ext_def rsplit1_last_sep)

lemma output_without_ext:
  "CHR ''.'' \<notin> set name \<Longrightarrow> output_blob_name name lang = name @ CHR ''-'' # lang"
  by (simp add: output_blob_name_def split_ext_def)

lemma reverse_map_without_ext:
  "CHR ''.'' \<notin> set name \<Longrightarrow> CHR ''.'' \<notin> set lang \<Longrightarrow> CHR ''-'' \<notin> set lang \<Longrightarrow>
   reverse_map (name @ CHR ''-'' # lang) = (name, lang)"
  by (simp add: reverse_map_def rsplit1_last_sep)

lemma reverse_map_with_ext:
  "CHR ''.'' \<notin> set ext \<Longrightarrow> CHR ''-'' \<notin> set lang \<Longrightarrow>
   reverse_map (base @ CHR ''-'' # lang @ CHR ''.'' # ext) = (base @ CHR ''.'' # ext, lang)"
proof -
  assume e: "CHR ''.'' \<notin> set ext" and l: "CHR ''-'' \<notin> set lang"
  have a: "base @ CHR ''-'' # lang @ CHR ''.'' # ext = (base @ CHR ''-'' # lang) @ CHR ''.'' # ext"
    by simp
  have r1: "rsplit1 CHR ''.'' (base @ CHR ''-'' # lang @ CHR ''.'' # ext) = (base @ CHR ''-'' # lang, ext)"
    unfolding a using e by (rule rsplit1_last_sep)
  have r2: "rsplit1 CHR ''-'' (base @ CHR ''-'' # lang) = (base, lang)"
    using l by (rule rsplit1_last_sep)
  show ?thesis
    by (simp add: reverse_map_def r1 r2)
qed

lemma reverse_map_output:
  assumes l: "CHR ''-'' \<notin> set lang"
    and d: "name = [] \<or> last name \<noteq> CHR ''.''"
    and x: "CHR ''.'' \<in> set name \<or> CHR ''.'' \<notin> set lang"
  shows "reverse_map (output_blob_name name lang) = (name, lang)"
proof (cases "CHR ''.'' \<in> set name")
  case False
  with x l show ?thesis by (simp add: output_without_ext reverse_map_without_ext)
next
  case True
  define base where "base = fst (rsplit1 CHR ''.'' name)"
  define ext where "ext = snd (rsplit1 CHR ''.'' name)"
  from rsplit1_decompose [OF True]
  have n: "name = base @ CHR ''.'' # ext" and e: "CHR ''.'' \<notin> set ext"
    by (simp_all add: base_def ext_def)
  from d n have ne: "ext \<noteq> []" by auto
  show ?thesis
    unfolding n using e ne l by (simp add: output_with_ext reverse_map_with_ext)
qed

lemma prepare_blobs_result:
  "fst (prepare_blobs st decoded file_name lang) = Inr urls \<Longrightarrow>
   (input_blob_name urls, output_name urls) = prepare_blobs_names file_name lang"
  by (auto simp add: prepare_blobs_def Let_def split: prod.splits sum.splits option.splits)

text \<open>
  C5, as the code computes it.  The normalization of \<open>Report (final).pdf\<close> turns the
  space and both parentheses into underscores and collapses the run, which leaves
  \<open>Report_final_.pdf\<close>: the underscore that stands for the closing parenthesis is in
  front of the extension, not at an end of the string, so \<open>strip\<close> keeps it.  The output
  object for language \<open>es\<close> is \<open>Report_final_-es.pdf\<close>, in every successful run of
  \<open>prepare_blobs\<close>, and the recovery search over an
  output container that holds only this object, modified less than two hours ago, makes
  up the entry with original name \<open>Report_final_.pdf\<close> and language \<open>es\<close>.
\<close>

theorem report_final_example:
  assumes "active_translations translation_id = None"
    and "list_reply st output_container =
           Inr [\<lparr>item_name = ''Report_final_-es.pdf'', item_size = n, item_last_modified = Some t\<rparr>]"
    and "now st - t < 2 * hour"
  shows "prepare_blobs_names ''Report (final).pdf'' ''es'' =
           (''Report_final_.pdf'', ''Report_final_-es.pdf'') \<and>
         (\<forall>urls. fst (prepare_blobs st' decoded ''Report (final).pdf'' ''es'') = Inr urls \<longrightarrow>
            input_blob_name urls = ''Report_final_.pdf'' \<and>
            output_name urls = ''Report_final_-es.pdf'') \<and>
         (\<exists>url. lookup_translation st active_translations translation_id =
            (Inr \<lparr>ti_blob_name = Some ''Report_final_.pdf'', ti_file_name = None,
                  ti_target_language = ''es'', ti_user_id = ''unknown'', ti_target_url = url\<rparr>,
             [ListBlobs output_container]))"
proof -
  have names: "prepare_blobs_names ''Report (final).pdf'' ''es'' =
      (''Report_final_.pdf'', ''Report_final_-es.pdf'')"
    by (simp add: prepare_blobs_names_def normalize_blob_name_def replace_char_def
        sub_disallowed_def allowed_char_def strip_char_def max_length_def
        output_blob_name_def split_ext_def rsplit1_def)
  have rev: "reverse_map ''Report_final_-es.pdf'' = (''Report_final_.pdf'', ''es'')"
    by (simp add: reverse_map_def rsplit1_def)
  have "\<exists>url. lookup_translation st active_translations translation_id =
            (Inr \<lparr>ti_blob_name = Some ''Report_final_.pdf'', ti_file_name = None,
                  ti_target_language = ''es'', ti_user_id = ''unknown'', ti_target_url = url\<rparr>,
             [ListBlobs output_container])"
    using assms by (simp add: lookup_translation_def recent_files_def rev)
  with names prepare_blobs_result [of st' decoded "''Report (final).pdf''" "''es''"]
  show ?thesis by simp
qed

theorem report_final_example_witness:
  "prepare_blobs_names ''Report (final).pdf'' ''es'' =
     (''Report_final_.pdf'', ''Report_final_-es.pdf'') \<and>
   (\<exists>urls. fst (prepare_blobs sample_storage (Inr [80, 68, 70]) ''Report (final).pdf'' ''es'') =
      Inr urls \<and> input_blob_name urls = ''Report_final_.pdf'' \<and>
      output_name urls = ''Report_final_-es.pdf'') \<and>
   (\<exists>url. lookup_translation
      (sample_storage\<lparr>list_reply := (\<lambda>container.
         Inr [\<lparr>item_name = ''Report_final_-es.pdf'', item_size = 3,
               item_last_modified = Some (9 * hour)\<rparr>])\<rparr>)
      Map.empty ''job1'' =
      (Inr \<lparr>ti_blob_name = Some ''Report_final_.pdf'', ti_file_name = None,
            ti_target_language = ''es'', ti_user_id = ''unknown'', ti_target_url = url\<rparr>,
       [ListBlobs output_container]))"
proof -
  have p: "\<exists>urls. fst (prepare_blobs sample_storage (Inr [80, 68, 70]) ''Report (final).pdf'' ''es'') =
      Inr urls"
    by (simp add: prepare_blobs_def sample_storage_def split_beta Let_def)
  have l: "list_reply (sample_storage\<lparr>list_reply := (\<lambda>container.
         Inr [\<lparr>item_name = ''Report_final_-es.pdf'', item_size = 3,
               item_last_modified = Some (9 * hour)\<rparr>])\<rparr>) output_container =
      Inr [\<lparr>item_name = ''Report_final_-es.pdf'', item_size = 3,
            item_last_modified = Some (9 * hour)\<rparr>]"
    by simp
  have t: "now (sample_storage\<lparr>list_reply := (\<lambda>container.
         Inr [\<lparr>item_name = ''Report_final_-es.pdf'', item_size = 3,
               item_last_modified = Some (9 * hour)\<rparr>])\<rparr>) - 9 * hour < 2 * hour"
    by (simp add: sample_storage_def hour_def)
  have e: "(Map.empty :: registry) ''job1'' = None" by simp
  show ?thesis
    using report_final_example [OF e l t, of sample_storage "Inr [80, 68, 70]"] p
    by auto
qed

text \<open>
  C5, as the specification states it: the output object would be
  \<open>Report_final-es.pdf\<close>.  The code produces another name.
\<close>

theorem report_final_counterexample:
  "snd (prepare_blobs_names ''Report (final).pdf'' ''es'') \<noteq> ''Report_final-es.pdf''"
  by (simp add: prepare_blobs_names_def normalize_blob_name_def replace_char_def
      sub_disallowed_def allowed_char_def strip_char_def max_length_def
      output_blob_name_def split_ext_def rsplit1_def)

text \<open>
  C6, amended.  The output name of \<open>base.ext\<close> for language \<open>lang\<close> is
  \<open>base-lang.ext\<close> when the text after the last dot is not empty, and the output name
  of a name without a dot is \<open>name-lang\<close> (a function of the two arguments, hence
  deterministic).  The reversal used by the recovery gives back the name and the language
  when the language has no hyphen, the name does not end with a dot, and the language has
  no dot unless the name has one.
\<close>

theorem naming_roundtrip:
  "(CHR ''.'' \<notin> set ext \<longrightarrow> ext \<noteq> [] \<longrightarrow>
      output_blob_name (base @ ''.'' @ ext) lang = base @ ''-'' @ lang @ ''.'' @ ext) \<and>
   (CHR ''.'' \<notin> set name \<longrightarrow> output_blob_name name lang = name @ ''-'' @ lang) \<and>
   (CHR ''-'' \<notin> set lang \<longrightarrow> (name = [] \<or> last name \<noteq> CHR ''.'') \<longrightarrow>
      (CHR ''.'' \<in> set name \<or> CHR ''.'' \<notin> set lang) \<longrightarrow>
      reverse_map (output_blob_name name lang) = (name, lang))"
  using output_with_ext [of ext base lang] output_without_ext [of name lang]
    reverse_map_output [of lang name]
  by simp

theorem naming_roundtrip_witness:
  "output_blob_name ''cloud-ready.pdf'' ''es'' = ''cloud-ready-es.pdf'' \<and>
   output_blob_name ''README'' ''fr'' = ''README-fr'' \<and>
   reverse_map (output_blob_name ''cloud-ready.pdf'' ''es'') = (''cloud-ready.pdf'', ''es'')"
  using naming_roundtrip [of "''pdf''" "''cloud-ready''" "''es''" "''README''"]
    naming_roundtrip [of "''pdf''" "''cloud-ready''" "''fr''" "''README''"]
    naming_roundtrip [of "''pdf''" "''cloud-ready''" "''es''" "''cloud-ready.pdf''"]
  by simp

text \<open>
  C6, as stated, fails for a name that ends with a dot: \<open>file.\<close> and \<open>file\<close> get the
  same output name \<open>file-es\<close>, whose only hyphen is the separator, and the reversal
  returns \<open>file\<close>.
\<close>

theorem naming_roundtrip_counterexample:
  "output_blob_name ''file.'' ''es'' = ''file-es'' \<and>
   output_blob_name ''file'' ''es'' = ''file-es'' \<and>
   reverse_map (output_blob_name ''file.'' ''es'') = (''file'', ''es'') \<and>
   reverse_map (output_blob_name ''file.'' ''es'') \<noteq> (''file.'', ''es'')"
  by (simp add: output_blob_name_def split_ext_def rsplit1_def reverse_map_def)

text \<open>
  C9 at two inputs.  A name whose text after the last dot has 200 characters: the
  bound for the part before the dot is \<open>200 - 200 - 1 = -1\<close>, the slice \<open>name_part[:-1]\<close>
  is empty, and the result has 201 characters.  A name of 201 characters without a dot
  and with a space in position 200: the cut at 200 characters comes after \<open>strip\<close>, and
  the result ends with an underscore.
\<close>

theorem normalize_blob_name_truncation:
  "length (normalize_blob_name (''1.'' @ replicate 200 CHR ''b'')) = 201 \<and>
   last (normalize_blob_name (replicate 199 CHR ''a'' @ '' b'')) = CHR ''_''"
  by code_simp

section \<open>The token slot of GraphService\<close>

lemma get_access_token_log:
  "snd (snd (get_access_token g (gs, log))) = log @ [TokenPost]"
  by (simp add: get_access_token_def Let_def split: token_reply.splits option.splits)

text \<open>
  C4 on the sample deployment.  The first call of \<open>_get_access_token\<close> posts the
  credentials and fills the slot; the second call, on the service with the slot filled,
  posts them again: the slot is written and never read.  One \<open>save_to_onedrive\<close>
  alone makes two exchanges, its own and that of \<open>create_documents_folder\<close>.
\<close>

theorem token_exchange_repeated:
  "get_access_token sample_graph (sample_service, []) =
     (Some ''token'', (sample_service\<lparr>access_token := Some ''token''\<rparr>, [TokenPost])) \<and>
   get_access_token sample_graph (sample_service\<lparr>access_token := Some ''token''\<rparr>, [TokenPost]) =
     (Some ''token'', (sample_service\<lparr>access_token := Some ''token''\<rparr>, [TokenPost, TokenPost])) \<and>
   snd (snd (save_to_onedrive sample_graph ''user-1'' [80, 68, 70] ''report.pdf'' ''es''
               (sample_service, []))) =
     [TokenPost, TokenPost, FolderGet ''user-1'', UploadPut ''user-1'' ''report-es.pdf'']"
  by (simp add: get_access_token_def save_to_onedrive_def create_documents_folder_def
      sample_graph_def sample_service_def output_blob_name_def split_ext_def rsplit1_def)

lemma create_documents_folder_log:
  "list_all is_graph_call log \<Longrightarrow>
   list_all is_graph_call (snd (snd (create_documents_folder g user (gs, log))))"
  by (simp add: create_documents_folder_def get_access_token_def Let_def
      split: token_reply.splits option.splits http_reply.splits prod.splits)

lemma save_to_onedrive_log:
  "list_all is_graph_call log \<Longrightarrow>
   list_all is_graph_call (snd (snd (save_to_onedrive g user content file lang (gs, log))))"
proof -
  assume h: "list_all is_graph_call log"
  obtain tok gs1 log1 where t: "get_access_token g (gs, log) = (tok, (gs1, log1))"
    by (metis prod.exhaust)
  have l1: "list_all is_graph_call log1"
    using get_access_token_log [of g gs log] t h by simp
  obtain ok gs2 log2 where c: "create_documents_folder g user (gs1, log1) = (ok, (gs2, log2))"
    by (metis prod.exhaust)
  have l2: "list_all is_graph_call log2"
    using create_documents_folder_log [OF l1, of g user gs1] c by simp
  show ?thesis
    using h l1 l2 by (simp add: save_to_onedrive_def t c Let_def split: option.splits upload_reply.splits)
qed

lemma onedrive_import_log:
  "list_all is_graph_call (snd (onedrive_import g gs tid info content))"
  using save_to_onedrive_log [of "[]" g "ti_user_id info" content "file_name_of info"
      "ti_target_language info" gs]
  by (auto simp add: onedrive_import_def Let_def split: prod.splits sum.splits)


lemma get_result_registered:
  assumes "active_translations tid = Some info"
    and "fetch_translated st p tid info = (Inr content, ev2)"
  shows "get_result st p g gs active_translations tid flag =
           (Result (fst (onedrive_import g gs tid info content)), active_translations(tid := None),
            ev2 @ snd (onedrive_import g gs tid info content))"
  using assms by (simp add: get_result_def lookup_translation_def split_beta dom_def)

lemma get_result_not_fetched:
  assumes "active_translations tid = Some info"
    and "fetch_translated st p tid info = (Inl resp, ev2)"
  shows "get_result st p g gs active_translations tid flag = (resp, active_translations, ev2)"
  using assms by (simp add: get_result_def lookup_translation_def)


section \<open>The download of the translated file\<close>







lemma unavailable_download:
  "download_translated_file unavailable_storage n (ti_target_url sample_info) =
     Inl (DownloadError (FileNotFoundError ''report-es.pdf'' ''doc-trad''))"
  by (simp add: download_translated_file_def unavailable_storage_def sample_info_def)



section \<open>The status loop\<close>

lemma poll_status_checks:
  "length (filter is_status_check (snd (poll_status p tid m r))) \<le> m - r"
proof (induction p tid m r rule: poll_status.induct)
  case (1 p tid m r)
  show ?case
  proof (cases "r < m")
    case False
    then show ?thesis by (subst poll_status.simps) simp
  next
    case True
    show ?thesis
    proof (cases "status_reply p r tid")
      case (Inl e)
      with True show ?thesis by (subst poll_status.simps) simp
    next
      case (Inr status)
      show ?thesis
      proof (cases "status \<noteq> ''Succeeded'' \<and> r < m - 1")
        case False
        with True Inr show ?thesis by (subst poll_status.simps) auto
      next
        case c: True
        then have "length (filter is_status_check (snd (poll_status p tid m (Suc r)))) \<le> m - Suc r"
          using "1.IH" [OF True Inr] by simp
        with True Inr c show ?thesis
          by (subst poll_status.simps) (simp add: split_beta)
      qed
    qed
  qed
qed

lemma poll_status_sleep:
  "total_sleep (snd (poll_status p tid m r)) \<le> 5 * (m - Suc r)"
proof (induction p tid m r rule: poll_status.induct)
  case (1 p tid m r)
  show ?case
  proof (cases "r < m")
    case False
    then show ?thesis by (subst poll_status.simps) (simp add: total_sleep_def)
  next
    case True
    show ?thesis
    proof (cases "status_reply p r tid")
      case (Inl e)
      with True show ?thesis by (subst poll_status.simps) (simp add: total_sleep_def)
    next
      case (Inr status)
      show ?thesis
      proof (cases "status \<noteq> ''Succeeded'' \<and> r < m - 1")
        case False
        with True Inr show ?thesis by (subst poll_status.simps) (auto simp: total_sleep_def)
      next
        case c: True
        then have "total_sleep (snd (poll_status p tid m (Suc r))) \<le> 5 * (m - Suc (Suc r))"
          using "1.IH" [OF True Inr] by simp
        with True Inr c show ?thesis
          by (subst poll_status.simps) (simp add: split_beta total_sleep_def, arith)
      qed
    qed
  qed
qed

lemma poll_status_no_download:
  "filter is_download (snd (poll_status p tid m r)) = []"
proof (induction p tid m r rule: poll_status.induct)
  case (1 p tid m r)
  show ?case
  proof (cases "r < m")
    case False
    then show ?thesis by (subst poll_status.simps) simp
  next
    case True
    show ?thesis
    proof (cases "status_reply p r tid")
      case (Inl e)
      with True show ?thesis by (subst poll_status.simps) simp
    next
      case (Inr status)
      show ?thesis
      proof (cases "status \<noteq> ''Succeeded'' \<and> r < m - 1")
        case False
        with True Inr show ?thesis by (subst poll_status.simps) auto
      next
        case c: True
        then have "filter is_download (snd (poll_status p tid m (Suc r))) = []"
          using "1.IH" [OF True Inr] by simp
        with True Inr c show ?thesis
          by (subst poll_status.simps) (simp add: split_beta)
      qed
    qed
  qed
qed

text \<open>One round of the loop that neither breaks nor returns.\<close>

lemma poll_status_round:
  assumes "r < m - 1" and "status_reply p r tid = Inr status" and "status \<noteq> ''Succeeded''"
  shows "poll_status p tid m r =
           (fst (poll_status p tid m (Suc r)),
            CheckStatus tid # Sleep 5 # snd (poll_status p tid m (Suc r)))"
  using assms by (subst poll_status.simps) (simp add: split_beta)

lemma poll_status_succeeded:
  assumes "r < m" and "status_reply p r tid = Inr ''Succeeded''"
  shows "poll_status p tid m r = (GoDownload, [CheckStatus tid])"
  using assms by (subst poll_status.simps) simp

lemma poll_status_last:
  assumes "r < m" and "\<not> r < m - 1" and "status_reply p r tid = Inr status"
    and "status \<noteq> ''Succeeded''"
  shows "poll_status p tid m r = (NotFinished status, [CheckStatus tid])"
  using assms by (subst poll_status.simps) simp

lemma poll_status_rounds:
  assumes "r + k < m" and "\<forall>i<k. \<exists>s. status_reply p (r + i) tid = Inr s \<and> s \<noteq> ''Succeeded''"
    and "status_reply p (r + k) tid = Inr ''Succeeded''"
  shows "poll_status p tid m r =
           (GoDownload, concat (replicate k [CheckStatus tid, Sleep 5]) @ [CheckStatus tid])"
  using assms
proof (induction k arbitrary: r)
  case 0
  then show ?case by (simp add: poll_status_succeeded)
next
  case (Suc k)
  from Suc.prems(2) obtain s where s: "status_reply p r tid = Inr s" "s \<noteq> ''Succeeded''"
    by fastforce
  have r: "r < m - 1" using Suc.prems(1) by simp
  have "\<forall>i<k. \<exists>s. status_reply p (Suc r + i) tid = Inr s \<and> s \<noteq> ''Succeeded''"
    using Suc.prems(2) by (metis Suc_less_eq add_Suc_shift)
  then have "poll_status p tid m (Suc r) =
      (GoDownload, concat (replicate k [CheckStatus tid, Sleep 5]) @ [CheckStatus tid])"
    using Suc.IH [of "Suc r"] Suc.prems(1,3) by simp
  then show ?case
    by (simp add: poll_status_round [OF r s])
qed

lemma poll_status_three_rounds:
  assumes "status_reply p 0 tid = Inr s0" "s0 \<noteq> ''Succeeded''"
    and "status_reply p 1 tid = Inr s1" "s1 \<noteq> ''Succeeded''"
    and "status_reply p 2 tid = Inr s2" "s2 \<noteq> ''Succeeded''"
  shows "poll_status p tid 3 0 =
           (NotFinished s2, [CheckStatus tid, Sleep 5, CheckStatus tid, Sleep 5, CheckStatus tid])"
proof -
  have a: "poll_status p tid 3 2 = (NotFinished s2, [CheckStatus tid])"
    using assms(5,6) by (simp add: poll_status_last)
  have b: "poll_status p tid 3 1 = (NotFinished s2, [CheckStatus tid, Sleep 5, CheckStatus tid])"
    using poll_status_round [of 1 3 p tid s1] assms(3,4) a by (simp add: numeral_2_eq_2)
  show ?thesis
    using poll_status_round [of 0 3 p tid s0] assms(1,2) b by simp
qed


section \<open>Retrieval of the result\<close>




lemma graph_calls_only:
  "list_all is_graph_call ev \<Longrightarrow>
   filter is_status_check ev = [] \<and> filter is_download ev = [] \<and> total_sleep ev = 0"
proof (induction ev)
  case Nil
  then show ?case by (simp add: total_sleep_def)
next
  case (Cons e ev)
  then show ?case by (cases e) (simp_all add: total_sleep_def)
qed

lemma total_sleep_append: "total_sleep (xs @ ys) = total_sleep xs + total_sleep ys"
  by (simp add: total_sleep_def)

lemma fetch_translated_bounds:
  "length (filter is_status_check (snd (fetch_translated st p tid info))) \<le> 3 \<and>
   total_sleep (snd (fetch_translated st p tid info)) \<le> 10 \<and>
   length (filter is_download (snd (fetch_translated st p tid info))) \<le> 2"
proof -
  obtain r ev where poll: "poll_status p tid 3 0 = (r, ev)"
    by (metis prod.exhaust)
  have c: "length (filter is_status_check ev) \<le> 3"
    using poll_status_checks [of p tid 3 0] poll by simp
  have s: "sum_list (map sleep_seconds ev) \<le> 10"
    using poll_status_sleep [of p tid 3 0] poll by (simp add: total_sleep_def)
  have d: "filter is_download ev = []"
    using poll_status_no_download [of p tid 3 0] poll by simp
  show ?thesis
    using c s d
    by (simp add: fetch_translated_def poll total_sleep_def split: sum.splits poll_result.splits)
qed

lemma get_result_events:
  assumes "active_translations tid = Some info"
  shows "\<exists>ev3. list_all is_graph_call ev3 \<and>
           snd (snd (get_result st p g gs active_translations tid flag)) =
             snd (fetch_translated st p tid info) @ ev3"
proof (cases "fetch_translated st p tid info")
  case (Pair r ev2)
  show ?thesis
  proof (cases r)
    case (Inl resp)
    then show ?thesis
      using get_result_not_fetched [of active_translations tid info st p resp ev2 g gs flag] assms Pair
      by simp
  next
    case (Inr content)
    then show ?thesis
      using get_result_registered [of active_translations tid info st p content ev2 g gs flag] assms Pair
        onedrive_import_log [of g gs tid info content]
      by simp
  qed
qed

text \<open>
  C2.  For a registered job whose direct download raises, \<open>get_result\<close> asks the
  status at most 3 times, sleeps at most 10 seconds and downloads at most twice.  When
  three status answers in a row are not \<open>Succeeded\<close>, the response is status 400
  (not ready), the registry is unchanged, and the calls made are the download, three
  status checks and two sleeps of 5 seconds between them.  When the \<open>k\<close>-th answer
  (\<open>k < 3\<close>) is the first \<open>Succeeded\<close> and the download raises again, the response is
  status 500 (download failed), after \<open>k\<close> sleeps and exactly one more download.
\<close>

theorem bounded_status_polling:
  assumes reg: "active_translations tid = Some info"
    and dl: "download_translated_file st 0 (ti_target_url info) = Inl e0"
  shows "length (filter is_status_check
            (snd (snd (get_result st p g gs active_translations tid flag)))) \<le> 3 \<and>
         total_sleep (snd (snd (get_result st p g gs active_translations tid flag))) \<le> 10 \<and>
         length (filter is_download
            (snd (snd (get_result st p g gs active_translations tid flag)))) \<le> 2 \<and>
         (status_reply p 0 tid = Inr s0 \<longrightarrow> s0 \<noteq> ''Succeeded'' \<longrightarrow>
          status_reply p 1 tid = Inr s1 \<longrightarrow> s1 \<noteq> ''Succeeded'' \<longrightarrow>
          status_reply p 2 tid = Inr s2 \<longrightarrow> s2 \<noteq> ''Succeeded'' \<longrightarrow>
            get_result st p g gs active_translations tid flag =
              (Failure 400 (NotReady 3 s2), active_translations,
               [Download (ti_target_url info), CheckStatus tid, Sleep 5, CheckStatus tid, Sleep 5,
                CheckStatus tid])) \<and>
         (k < 3 \<longrightarrow> (\<forall>i<k. \<exists>s. status_reply p i tid = Inr s \<and> s \<noteq> ''Succeeded'') \<longrightarrow>
          status_reply p k tid = Inr ''Succeeded'' \<longrightarrow>
          download_translated_file st 1 (ti_target_url info) = Inl e1 \<longrightarrow>
            get_result st p g gs active_translations tid flag =
              (Failure 500 (DownloadFailed e1), active_translations,
               Download (ti_target_url info) # concat (replicate k [CheckStatus tid, Sleep 5]) @
                 [CheckStatus tid, Download (ti_target_url info)]))"
proof -
  obtain ev3 where g3: "list_all is_graph_call ev3"
    and ev: "snd (snd (get_result st p g gs active_translations tid flag)) =
               snd (fetch_translated st p tid info) @ ev3"
    using get_result_events [of active_translations tid info st p g gs flag] reg by blast
  have bounds: "length (filter is_status_check
            (snd (snd (get_result st p g gs active_translations tid flag)))) \<le> 3 \<and>
         total_sleep (snd (snd (get_result st p g gs active_translations tid flag))) \<le> 10 \<and>
         length (filter is_download
            (snd (snd (get_result st p g gs active_translations tid flag)))) \<le> 2"
    using fetch_translated_bounds [of st p tid info] graph_calls_only [OF g3]
    by (simp add: ev total_sleep_append)
  have not_ready: "get_result st p g gs active_translations tid flag =
              (Failure 400 (NotReady 3 s2), active_translations,
               [Download (ti_target_url info), CheckStatus tid, Sleep 5, CheckStatus tid, Sleep 5,
                CheckStatus tid])"
    if "status_reply p 0 tid = Inr s0" "s0 \<noteq> ''Succeeded''"
      "status_reply p 1 tid = Inr s1" "s1 \<noteq> ''Succeeded''"
      "status_reply p 2 tid = Inr s2" "s2 \<noteq> ''Succeeded''"
  proof -
    have "fetch_translated st p tid info =
        (Inl (Failure 400 (NotReady 3 s2)),
         [Download (ti_target_url info), CheckStatus tid, Sleep 5, CheckStatus tid, Sleep 5,
          CheckStatus tid])"
      using dl poll_status_three_rounds [OF that] by (simp add: fetch_translated_def)
    then show ?thesis
      using reg by (simp add: get_result_not_fetched)
  qed
  have unavailable: "get_result st p g gs active_translations tid flag =
              (Failure 500 (DownloadFailed e1), active_translations,
               Download (ti_target_url info) # concat (replicate k [CheckStatus tid, Sleep 5]) @
                 [CheckStatus tid, Download (ti_target_url info)])"
    if "k < 3" "\<forall>i<k. \<exists>s. status_reply p i tid = Inr s \<and> s \<noteq> ''Succeeded''"
      "status_reply p k tid = Inr ''Succeeded''"
      "download_translated_file st 1 (ti_target_url info) = Inl e1"
  proof -
    have "poll_status p tid 3 0 =
        (GoDownload, concat (replicate k [CheckStatus tid, Sleep 5]) @ [CheckStatus tid])"
      using poll_status_rounds [of 0 k 3 p tid] that(1-3) by simp
    then have "fetch_translated st p tid info =
        (Inl (Failure 500 (DownloadFailed e1)),
         Download (ti_target_url info) # concat (replicate k [CheckStatus tid, Sleep 5]) @
           [CheckStatus tid, Download (ti_target_url info)])"
      using dl that(4) by (simp add: fetch_translated_def)
    then show ?thesis
      using reg by (simp add: get_result_not_fetched)
  qed
  from bounds not_ready unavailable show ?thesis by blast
qed


theorem bounded_status_polling_witness:
  "get_result unavailable_storage sample_provider sample_graph sample_service
     [''job1'' \<mapsto> sample_info] ''job1'' True =
     (Failure 400 (NotReady 3 ''InProgress''), [''job1'' \<mapsto> sample_info],
      [Download (ti_target_url sample_info), CheckStatus ''job1'', Sleep 5, CheckStatus ''job1'',
       Sleep 5, CheckStatus ''job1'']) \<and>
   get_result unavailable_storage late_provider sample_graph sample_service
     [''job1'' \<mapsto> sample_info] ''job1'' True =
     (Failure 500 (DownloadFailed (DownloadError (FileNotFoundError ''report-es.pdf'' ''doc-trad''))),
      [''job1'' \<mapsto> sample_info],
      [Download (ti_target_url sample_info), CheckStatus ''job1'', Sleep 5, CheckStatus ''job1'',
       Download (ti_target_url sample_info)])"
proof -
  have reg: "[''job1'' \<mapsto> sample_info] ''job1'' = Some sample_info" by simp
  have dl: "download_translated_file unavailable_storage 0 (ti_target_url sample_info) =
      Inl (DownloadError (FileNotFoundError ''report-es.pdf'' ''doc-trad''))"
    by (rule unavailable_download)
  have dl1: "download_translated_file unavailable_storage 1 (ti_target_url sample_info) =
      Inl (DownloadError (FileNotFoundError ''report-es.pdf'' ''doc-trad''))"
    by (rule unavailable_download)
  have s: "status_reply sample_provider 0 ''job1'' = Inr ''InProgress''"
    "status_reply sample_provider 1 ''job1'' = Inr ''InProgress''"
    "status_reply sample_provider 2 ''job1'' = Inr ''InProgress''"
    "''InProgress'' \<noteq> ''Succeeded''"
    by (simp_all add: sample_provider_def)
  have l: "\<forall>i<1. \<exists>s. status_reply late_provider i ''job1'' = Inr s \<and> s \<noteq> ''Succeeded''"
    "status_reply late_provider 1 ''job1'' = Inr ''Succeeded''" "(1::nat) < 3"
    by (simp_all add: late_provider_def)
  have a: "get_result unavailable_storage sample_provider sample_graph sample_service
     [''job1'' \<mapsto> sample_info] ''job1'' True =
     (Failure 400 (NotReady 3 ''InProgress''), [''job1'' \<mapsto> sample_info],
      [Download (ti_target_url sample_info), CheckStatus ''job1'', Sleep 5, CheckStatus ''job1'',
       Sleep 5, CheckStatus ''job1''])"
    using bounded_status_polling [of "[''job1'' \<mapsto> sample_info]" "''job1''" sample_info
        unavailable_storage "DownloadError (FileNotFoundError ''report-es.pdf'' ''doc-trad'')"
        sample_provider sample_graph sample_service True
        "''InProgress''" "''InProgress''" "''InProgress''" 0
        "DownloadError (FileNotFoundError ''report-es.pdf'' ''doc-trad'')"] reg dl s
    by blast
  have b: "get_result unavailable_storage late_provider sample_graph sample_service
     [''job1'' \<mapsto> sample_info] ''job1'' True =
     (Failure 500 (DownloadFailed (DownloadError (FileNotFoundError ''report-es.pdf'' ''doc-trad''))),
      [''job1'' \<mapsto> sample_info],
      Download (ti_target_url sample_info) # concat (replicate 1 [CheckStatus ''job1'', Sleep 5]) @
        [CheckStatus ''job1'', Download (ti_target_url sample_info)])"
    using bounded_status_polling [of "[''job1'' \<mapsto> sample_info]" "''job1''" sample_info
        unavailable_storage "DownloadError (FileNotFoundError ''report-es.pdf'' ''doc-trad'')"
        late_provider sample_graph sample_service True
        "''InProgress''" "''InProgress''" "''InProgress''" 1
        "DownloadError (FileNotFoundError ''report-es.pdf'' ''doc-trad'')"] reg dl dl1 l
    by blast
  from a b show ?thesis by simp
qed

section \<open>Eviction from the registry\<close>



lemma fetch_translated_failure:
  "fetch_translated st p tid info = (Inl resp, ev) \<Longrightarrow> \<not> is_result resp"
  by (auto simp add: fetch_translated_def split: sum.splits prod.splits poll_result.splits)









text \<open>
  A request for an identifier that is not in the registry never ends with a result:
  either the search finds nothing, or the retrieval fails, or the final \<open>del\<close> raises.
\<close>

lemma lookup_translation_failure:
  "lookup_translation st reg tid = (Inl resp, ev) \<Longrightarrow> \<not> is_result resp"
  by (auto simp add: lookup_translation_def split_beta Let_def
      split: option.splits sum.splits list.splits)

lemma get_result_unregistered:
  assumes "reg tid = None"
  shows "\<not> is_result (fst (get_result st p g gs reg tid flag)) \<and>
         fst (snd (get_result st p g gs reg tid flag)) = reg"
proof (cases "lookup_translation st reg tid")
  case (Pair r ev1)
  show ?thesis
  proof (cases r)
    case (Inl resp)
    with Pair lookup_translation_failure [of st reg tid resp ev1] show ?thesis
      by (simp add: get_result_def)
  next
    case (Inr info)
    show ?thesis
    proof (cases "fetch_translated st p tid info")
      case f: (Pair r2 ev2)
      show ?thesis
      proof (cases r2)
        case (Inl resp)
        with Pair Inr f fetch_translated_failure [of st p tid info resp ev2] show ?thesis
          by (simp add: get_result_def)
      next
        case c: (Inr content)
        with Pair Inr f assms show ?thesis
          by (simp add: get_result_def split_beta dom_def)
      qed
    qed
  qed
qed

section \<open>Import into OneDrive\<close>





section \<open>Submission\<close>

text \<open>
  C7.  When the storage account answers that the named source blob does not exist,
  neither handler submits anything to the provider, and neither changes its registry.
  With the three required parameters present, the REST handler answers with status 404
  and the MCP handler with its not-found text, after the existence check alone.
\<close>

theorem missing_source_never_submitted:
  assumes "exists_reply st input_container blob = Inr False"
    and "data ''blob_name'' = Some blob"
  shows "\<not> is_result (fst (translate_document st p reg data)) \<and>
         (\<forall>tid b l. fst (translate_document st p reg data) \<noteq> Started tid b l) \<and>
         fst (snd (translate_document st p reg data)) = reg \<and>
         filter is_submission (snd (snd (translate_document st p reg data))) = [] \<and>
         (data ''target_language'' \<noteq> None \<longrightarrow> data ''user_id'' \<noteq> None \<longrightarrow>
            translate_document st p reg data =
              (Failure 404 (SourceNotFound blob input_container), reg,
               [BlobExists input_container blob])) \<and>
         (\<forall>tid b l. fst (handle_translate_document st p srv data) \<noteq> McpStarted b l tid) \<and>
         fst (snd (handle_translate_document st p srv data)) = srv \<and>
         filter is_submission (snd (snd (handle_translate_document st p srv data))) = [] \<and>
         (data ''target_language'' \<noteq> None \<longrightarrow> data ''user_id'' \<noteq> None \<longrightarrow>
            handle_translate_document st p srv data =
              (McpSourceNotFound blob input_container, srv, [BlobExists input_container blob]))"
  using assms
  by (auto simp add: translate_document_def handle_translate_document_def check_blob_exists_def
      split: option.splits)

theorem missing_source_never_submitted_witness:
  "translate_document sample_storage sample_provider Map.empty sample_request =
     (Failure 404 (SourceNotFound ''report.pdf'' input_container), Map.empty,
      [BlobExists input_container ''report.pdf'']) \<and>
   handle_translate_document sample_storage sample_provider (Map.empty, sample_service) sample_request =
     (McpSourceNotFound ''report.pdf'' input_container, (Map.empty, sample_service),
      [BlobExists input_container ''report.pdf''])"
proof -
  have e: "exists_reply sample_storage input_container ''report.pdf'' = Inr False"
    by (simp add: sample_storage_def)
  have d: "sample_request ''blob_name'' = Some ''report.pdf''"
    "sample_request ''target_language'' \<noteq> None" "sample_request ''user_id'' \<noteq> None"
    by (simp_all add: sample_request_def)
  show ?thesis
    using missing_source_never_submitted [of sample_storage "''report.pdf''" sample_request
        sample_provider Map.empty "(Map.empty, sample_service)"] e d
    by simp
qed

text \<open>
  C10.  \<open>check_blob_exists\<close> returns a boolean in every case; when the storage call
  raises, it returns \<open>False\<close>, and \<open>translate_document\<close> then answers a complete
  request with status 404, as for a missing file.
\<close>

theorem check_blob_exists_never_raises:
  "(\<exists>b. fst (check_blob_exists st container blob) = Inr b) \<and>
   (exists_reply st container blob = Inl e \<longrightarrow>
      fst (check_blob_exists st container blob) = Inr False) \<and>
   (exists_reply st input_container blob = Inl e \<longrightarrow> data ''blob_name'' = Some blob \<longrightarrow>
    data ''target_language'' = Some lang \<longrightarrow> data ''user_id'' = Some user \<longrightarrow>
      translate_document st p reg data =
        (Failure 404 (SourceNotFound blob input_container), reg,
         [BlobExists input_container blob]))"
  by (auto simp add: check_blob_exists_def translate_document_def split: sum.splits)

theorem check_blob_exists_never_raises_witness:
  "fst (check_blob_exists broken_storage input_container ''report.pdf'') = Inr False \<and>
   translate_document broken_storage sample_provider Map.empty sample_request =
     (Failure 404 (SourceNotFound ''report.pdf'' input_container), Map.empty,
      [BlobExists input_container ''report.pdf''])"
proof -
  have e: "exists_reply broken_storage input_container ''report.pdf'' = Inl (Raised ''timeout'')"
    by (simp add: broken_storage_def)
  have d: "sample_request ''blob_name'' = Some ''report.pdf''"
    "sample_request ''target_language'' = Some ''es''" "sample_request ''user_id'' = Some ''user-1''"
    by (simp_all add: sample_request_def)
  show ?thesis
    using check_blob_exists_never_raises [of broken_storage input_container "''report.pdf''"
        "Raised ''timeout''" sample_request "''es''" "''user-1''" sample_provider Map.empty] e d
    by simp
qed

end
